theory Spec2Isabelle
  imports Main
begin

section \<open>Offline request queue of the schedule helper (app/scripts/helper/schedule.js)\<close>

text \<open>
  The development embeds the two operations of class \<open>Schedule\<close> that work on the durable
  queue of failed API updates: the instance method \<open>replayQueuedRequests\<close> and the static
  method \<open>clearQueuedRequests\<close>. Everything they touch outside the file (the IndexedDB
  wrapper \<open>simpleDB\<close>, the requester \<open>IOWA.Request.xhrPromise\<close>, the toast element and
  \<open>navigator\<close>) is explicit: what the outside decides is a field of an environment
  record, what the code does to the outside is a field of a state record.
\<close>

subsection \<open>JavaScript values and settled promises\<close>

datatype jsval = Undefined | JBool bool | Str string | Arr "jsval list"

text \<open>
  A promise is represented by the way it settles. The rejection reason is dropped: the only
  handler of a rejection in the code is \<open>catch(() => ...)\<close>, which ignores its argument.
\<close>

datatype 'a promise = Resolved 'a | Rejected

fun join_comma :: "string list \<Rightarrow> string" where
  "join_comma [] = []"
| "join_comma [s] = s"
| "join_comma (s # t # ss) = s @ '','' @ join_comma (t # ss)"

text \<open>The string conversion that JavaScript applies where a value is used as a name.\<close>

fun js_to_string :: "jsval \<Rightarrow> string" where
  "js_to_string Undefined = ''undefined''"
| "js_to_string (JBool b) = (if b then ''true'' else ''false'')"
| "js_to_string (Str s) = s"
| "js_to_string (Arr vs) =
     join_comma (map (\<lambda>v. if v = Undefined then [] else js_to_string v) vs)"

text \<open>
  \<open>Promise.all\<close>: resolves with the array of the values when every member resolves and
  rejects as soon as one member rejects.
\<close>

fun all_values :: "'a promise list \<Rightarrow> 'a list promise" where
  "all_values [] = Resolved []"
| "all_values (Rejected # ps) = Rejected"
| "all_values (Resolved v # ps) =
     (case all_values ps of Resolved vs \<Rightarrow> Resolved (v # vs) | Rejected \<Rightarrow> Rejected)"

definition Promise_all :: "jsval promise list \<Rightarrow> jsval promise" where
  "Promise_all ps = (case all_values ps of Resolved vs \<Rightarrow> Resolved (Arr vs) | Rejected \<Rightarrow> Rejected)"

text \<open>\<open>Promise.resolve()\<close> without an argument.\<close>

definition Promise_resolve :: "jsval promise" where
  "Promise_resolve = Resolved Undefined"

subsection \<open>The outside world\<close>

text \<open>A network request as \<open>IOWA.Request.xhrPromise(method, url, auth, payload)\<close> receives it.\<close>

record request =
  req_method :: string
  req_url :: string
  req_auth :: bool
  req_payload :: jsval

text \<open>
  What the code does to the outside: the contents of the IndexedDB databases by name (each
  one a keyed store from request URL to HTTP method, in iteration order; a database that
  does not exist has no entries), the databases it asked to open, the network requests it
  issued and the toast messages it showed, each in the order of the calls.
\<close>

record world =
  dbs :: "string \<Rightarrow> (string \<times> string) list"
  opened :: "string list"
  sent :: "request list"
  toasts :: "string list"

text \<open>
  What the outside decides: whether \<open>'serviceWorker' in navigator\<close> holds, whether
  opening a database succeeds, whether a request succeeds and whether deleting a database
  succeeds.
\<close>

record env =
  serviceWorker :: bool
  open_ok :: "string \<Rightarrow> bool"
  xhr_ok :: "request \<Rightarrow> bool"
  deleteDatabase_ok :: "string \<Rightarrow> bool"

text \<open>
  Modelled from the spec: the toast element behind \<open>IOWA.Elements.Toast.showMessage\<close>
  is not part of the source file. It is a notification sink: \<open>showMessage(text)\<close> is
  fire and forget, and no return value is consumed.
\<close>

definition showMessage :: "string \<Rightarrow> world \<Rightarrow> world" where
  "showMessage text w = w\<lparr>toasts := toasts w @ [text]\<rparr>"

text \<open>
  Modelled from the spec: the requester \<open>IOWA.Request.xhrPromise\<close> is not part of the
  source file. It is \<open>send(method, url, authenticated, payload?)\<close>, giving a response
  or a failure: the request goes out and the promise settles as the outside decides. The
  response body is left out, since the caller's handler takes no argument.
\<close>

definition xhrPromise ::
  "env \<Rightarrow> string \<Rightarrow> string \<Rightarrow> bool \<Rightarrow> jsval \<Rightarrow> world \<Rightarrow> jsval promise \<times> world" where
  "xhrPromise e m u a p w =
     (let r = \<lparr>req_method = m, req_url = u, req_auth = a, req_payload = p\<rparr>
      in (if xhr_ok e r then Resolved Undefined else Rejected, w\<lparr>sent := sent w @ [r]\<rparr>))"

text \<open>
  The library \<open>simpleDB\<close> is not part of the source file. The four operations that the
  code calls follow the interface of the durable keyed store: \<open>open(name)\<close> gives a
  store handle or fails, \<open>store.forEach(visit(key, value))\<close> and
  \<open>store.delete(key)\<close> give a completion signal, and deleting the whole store succeeds
  or fails.
\<close>

text \<open>
  Modelled from the spec: \<open>simpleDB.open(name)\<close>, which gives a store handle or fails as
  the outside decides. The name is used as a string; the handle is the name of the opened
  database.
\<close>

definition simpleDB_open :: "env \<Rightarrow> jsval \<Rightarrow> world \<Rightarrow> string promise \<times> world" where
  "simpleDB_open e name w =
     (let n = js_to_string name
      in (if open_ok e n then Resolved n else Rejected, w\<lparr>opened := opened w @ [n]\<rparr>))"

text \<open>
  Modelled from the spec: \<open>simpleDB.delete(name)\<close>, which removes the whole database of
  that name, or fails and removes nothing, as the outside decides.
\<close>

definition simpleDB_delete :: "env \<Rightarrow> jsval \<Rightarrow> world \<Rightarrow> jsval promise \<times> world" where
  "simpleDB_delete e name w =
     (let n = js_to_string name
      in if deleteDatabase_ok e n then (Resolved Undefined, w\<lparr>dbs := (dbs w)(n := [])\<rparr>)
         else (Rejected, w))"

text \<open>
  Modelled from the spec: \<open>store.delete(key)\<close>, which removes the key and signals
  completion; removing an absent key is a no-op.
\<close>

definition db_delete :: "string \<Rightarrow> string \<Rightarrow> world \<Rightarrow> jsval promise \<times> world" where
  "db_delete db key w =
     (Resolved Undefined, w\<lparr>dbs := (dbs w)(db := filter (\<lambda>(k, v). k \<noteq> key) (dbs w db))\<rparr>)"

text \<open>
  Modelled from the spec: \<open>store.forEach(visit(key, value))\<close>, which signals completion
  after the visitor has run on every entry that the store holds when the
  iteration starts, in order. The visitor's own state (the array it pushes to) is threaded
  through together with the world.
\<close>

definition db_forEach ::
  "string \<Rightarrow> (string \<Rightarrow> string \<Rightarrow> 's \<times> world \<Rightarrow> 's \<times> world) \<Rightarrow> 's \<times> world
     \<Rightarrow> jsval promise \<times> 's \<times> world" where
  "db_forEach db visit s =
     (Resolved Undefined, foldl (\<lambda>t (k, v). visit k v t) s (dbs (snd s) db))"

subsection \<open>Class Schedule\<close>

definition QUEUED_SESSION_API_UPDATES_DB_NAME :: string where
  "QUEUED_SESSION_API_UPDATES_DB_NAME = ''toolbox-offline-session-updates''"

definition SCHEDULE_ENDPOINT :: string where
  "SCHEDULE_ENDPOINT = ''api/v1/schedule''"

definition SURVEY_ENDPOINT :: string where
  "SURVEY_ENDPOINT = ''api/v1/user/survey''"

text \<open>
  Reading a static data property \<open>Schedule.<name>\<close>: the class declares three static
  getters; a name that it does not declare reads as \<open>undefined\<close>.
\<close>

definition Schedule_static :: "string \<Rightarrow> jsval" where
  "Schedule_static p =
     (if p = ''QUEUED_SESSION_API_UPDATES_DB_NAME'' then Str QUEUED_SESSION_API_UPDATES_DB_NAME
      else if p = ''SCHEDULE_ENDPOINT'' then Str SCHEDULE_ENDPOINT
      else if p = ''SURVEY_ENDPOINT'' then Str SURVEY_ENDPOINT
      else Undefined)"

definition msg_updated :: string where
  "msg_updated = ''My Schedule was updated with offline changes.''"

definition msg_failed :: string where
  "msg_failed = ''Offline changes could not be applied to My Schedule.''"

text \<open>
  The visitor of \<open>replayQueuedRequests\<close>:
  \<^verbatim>\<open>
  function(url, method) {
    let replayPromise = IOWA.Request.xhrPromise(method, url, true).then(function() {
      return db.delete(url).then(function() { return true; });
    });
    replayPromises.push(replayPromise);
  }
  \<close>
  The request is sent when the entry is visited. Its answer and the deletion that follows
  come later, in any order between the entries; they act on the store only, one key each,
  so the model lets each request settle right where it is sent and describes the state
  once every request has settled.
\<close>

definition replay_visit ::
  "env \<Rightarrow> string \<Rightarrow> string \<Rightarrow> string \<Rightarrow> jsval promise list \<times> world
     \<Rightarrow> jsval promise list \<times> world" where
  "replay_visit e db url method s =
     (case s of (replayPromises, w) \<Rightarrow>
        (case xhrPromise e method url True Undefined w of
           (Rejected, w1) \<Rightarrow> (replayPromises @ [Rejected], w1)
         | (Resolved _, w1) \<Rightarrow>
             (case db_delete db url w1 of
                (Rejected, w2) \<Rightarrow> (replayPromises @ [Rejected], w2)
              | (Resolved _, w2) \<Rightarrow> (replayPromises @ [Resolved (JBool True)], w2))))"

text \<open>
  The handler of the opened store:
  \<^verbatim>\<open>
  db => {
    let replayPromises = [];
    return db.forEach(...).then(() => {
      if (replayPromises.length) {
        return Promise.all(replayPromises).then(() =>
          IOWA.Elements.Toast.showMessage('My Schedule was updated with offline changes.'));
      }
    });
  }
  \<close>
\<close>

definition replay_db :: "env \<Rightarrow> string \<Rightarrow> world \<Rightarrow> jsval promise \<times> world" where
  "replay_db e db w =
     (case db_forEach db (replay_visit e db) ([], w) of
        (Rejected, replayPromises, w1) \<Rightarrow> (Rejected, w1)
      | (Resolved _, replayPromises, w1) \<Rightarrow>
          if replayPromises \<noteq> [] then
            (case Promise_all replayPromises of
               Rejected \<Rightarrow> (Rejected, w1)
             | Resolved _ \<Rightarrow> (Resolved Undefined, showMessage msg_updated w1))
          else (Resolved Undefined, w1))"

text \<open>
  \<^verbatim>\<open>
  replayQueuedRequests() {
    if ('serviceWorker' in navigator) {
      let queuedSessionApiUpdates =
        simpleDB.open(Schedule.QUEUED_SESSION_API_UPDATES_DB_NAME).then(db => ...)
        .catch(() => {
          IOWA.Elements.Toast.showMessage('Offline changes could not be applied to My Schedule.');
        });
      return Promise.all([queuedSessionApiUpdates]);
    }
    return Promise.resolve();
  }
  \<close>
\<close>

definition replayQueuedRequests :: "env \<Rightarrow> world \<Rightarrow> jsval promise \<times> world" where
  "replayQueuedRequests e w =
     (if serviceWorker e then
        (case simpleDB_open e (Schedule_static ''QUEUED_SESSION_API_UPDATES_DB_NAME'') w of
           (opening, w1) \<Rightarrow>
             (case (case opening of
                      Rejected \<Rightarrow> (Rejected, w1)
                    | Resolved db \<Rightarrow> replay_db e db w1) of
                (Rejected, w2) \<Rightarrow> (Promise_all [Resolved Undefined], showMessage msg_failed w2)
              | (Resolved v, w2) \<Rightarrow> (Promise_all [Resolved v], w2)))
      else (Promise_resolve, w))"

text \<open>
  \<^verbatim>\<open>
  static clearQueuedRequests() {
    return simpleDB.delete(Schedule.QUEUED_SESSION_UPDATES_DB_NAME);
  }
  \<close>
\<close>

definition clearQueuedRequests :: "env \<Rightarrow> world \<Rightarrow> jsval promise \<times> world" where
  "clearQueuedRequests e w = simpleDB_delete e (Schedule_static ''QUEUED_SESSION_UPDATES_DB_NAME'') w"

text \<open>The persisted queue: the contents of the database that holds the queued updates.\<close>

definition queue :: "world \<Rightarrow> (string \<times> string) list" where
  "queue w = dbs w QUEUED_SESSION_API_UPDATES_DB_NAME"

text \<open>The request that replays the entry \<open>(url, method)\<close>.\<close>

definition replay_request :: "string \<times> string \<Rightarrow> request" where
  "replay_request kv =
     \<lparr>req_method = snd kv, req_url = fst kv, req_auth = True, req_payload = Undefined\<rparr>"

text \<open>Whether the replay of an entry succeeds, and how its replay promise settles.\<close>

definition request_ok :: "env \<Rightarrow> string \<times> string \<Rightarrow> bool" where
  "request_ok e kv = xhr_ok e (replay_request kv)"

definition settles :: "env \<Rightarrow> string \<times> string \<Rightarrow> jsval promise" where
  "settles e kv = (if request_ok e kv then Resolved (JBool True) else Rejected)"

text \<open>The keys of the entries of \<open>q\<close> whose replay succeeds.\<close>

definition replayed :: "env \<Rightarrow> (string \<times> string) list \<Rightarrow> string list" where
  "replayed e q = map fst (filter (request_ok e) q)"

subsection \<open>Concrete inputs\<close>

text \<open>A fresh world whose queue holds \<open>q\<close>, and an environment given by its answers.\<close>

definition world_of :: "(string \<times> string) list \<Rightarrow> world" where
  "world_of q =
     \<lparr>dbs = (\<lambda>n. [])(QUEUED_SESSION_API_UPDATES_DB_NAME := q),
      opened = [], sent = [], toasts = []\<rparr>"

definition env_of :: "bool \<Rightarrow> bool \<Rightarrow> (request \<Rightarrow> bool) \<Rightarrow> env" where
  "env_of sw op ok =
     \<lparr>serviceWorker = sw, open_ok = (\<lambda>n. op), xhr_ok = ok, deleteDatabase_ok = (\<lambda>n. True)\<rparr>"

definition survey_queue :: "(string \<times> string) list" where
  "survey_queue = [(''api/v1/user/survey/42'', ''PUT'')]"

definition ab_queue :: "(string \<times> string) list" where
  "ab_queue = [(''A'', ''GET''), (''B'', ''PUT'')]"

definition only_A :: "request \<Rightarrow> bool" where
  "only_A r = (req_url r = ''A'')"

section \<open>How the replay acts on the world\<close>

lemma replay_visit_step:
  "replay_visit e db k v (ps, w) =
     (ps @ [settles e (k, v)],
      w\<lparr>sent := sent w @ [replay_request (k, v)],
        dbs := (dbs w)(db := filter (\<lambda>kv. fst kv \<notin> set (replayed e [(k, v)])) (dbs w db))\<rparr>)"
  by (simp add: replay_visit_def xhrPromise_def db_delete_def replay_request_def Let_def
      replayed_def settles_def request_ok_def case_prod_unfold)

lemma fold_visit:
  "foldl (\<lambda>t (k, v). replay_visit e db k v t) (ps, w) q =
     (ps @ map (settles e) q,
      w\<lparr>sent := sent w @ map replay_request q,
        dbs := (dbs w)(db := filter (\<lambda>kv. fst kv \<notin> set (replayed e q)) (dbs w db))\<rparr>)"
proof (induction q arbitrary: ps w)
  case Nil
  show ?case by (simp add: replayed_def)
next
  case (Cons kv q)
  obtain k v where kv: "kv = (k, v)" by (cases kv)
  have twice: "filter (\<lambda>x. fst x \<notin> set (replayed e q))
                 (filter (\<lambda>x. fst x \<notin> set (replayed e [(k, v)])) d) =
               filter (\<lambda>x. fst x \<notin> set (replayed e ((k, v) # q))) d"
    for d :: "(string \<times> string) list"
    by (auto simp: replayed_def intro!: filter_cong)
  have "foldl (\<lambda>t (k, v). replay_visit e db k v t) (ps, w) (kv # q) =
        foldl (\<lambda>t (k, v). replay_visit e db k v t) (replay_visit e db k v (ps, w)) q"
    by (simp add: kv)
  also have "\<dots> =
      (ps @ map (settles e) (kv # q),
       w\<lparr>sent := sent w @ map replay_request (kv # q),
         dbs := (dbs w)(db := filter (\<lambda>x. fst x \<notin> set (replayed e (kv # q))) (dbs w db))\<rparr>)"
    unfolding replay_visit_step Cons.IH
    by (simp add: kv twice del: filter_filter)
  finally show ?case .
qed

lemma all_values_settles:
  "all_values (map (settles e) q) =
     (if list_all (request_ok e) q then Resolved (map (\<lambda>kv. JBool True) q) else Rejected)"
  by (induction q) (simp_all add: settles_def)

lemma replay_db_world:
  "snd (replay_db e db w) =
     w\<lparr>sent := sent w @ map replay_request (dbs w db),
       dbs := (dbs w)(db := filter (\<lambda>kv. fst kv \<notin> set (replayed e (dbs w db))) (dbs w db)),
       toasts := toasts w @
         (if dbs w db \<noteq> [] \<and> list_all (request_ok e) (dbs w db) then [msg_updated] else [])\<rparr>"
  by (simp add: replay_db_def db_forEach_def fold_visit Promise_all_def all_values_settles
      showMessage_def)

lemma replay_db_result:
  "fst (replay_db e db w) =
     (if list_all (request_ok e) (dbs w db) then Resolved Undefined else Rejected)"
  by (auto simp: replay_db_def db_forEach_def fold_visit Promise_all_def all_values_settles)

lemma db_name:
  "js_to_string (Schedule_static ''QUEUED_SESSION_API_UPDATES_DB_NAME'') =
     QUEUED_SESSION_API_UPDATES_DB_NAME"
  by (simp add: Schedule_static_def)

lemma replay_world_off:
  "\<not> serviceWorker e \<Longrightarrow> snd (replayQueuedRequests e w) = w"
  by (simp add: replayQueuedRequests_def)

lemma replay_world_closed:
  "serviceWorker e \<Longrightarrow> \<not> open_ok e QUEUED_SESSION_API_UPDATES_DB_NAME \<Longrightarrow>
   snd (replayQueuedRequests e w) =
     w\<lparr>opened := opened w @ [QUEUED_SESSION_API_UPDATES_DB_NAME],
       toasts := toasts w @ [msg_failed]\<rparr>"
  by (simp add: replayQueuedRequests_def simpleDB_open_def db_name Let_def showMessage_def)

lemma replay_world_open:
  "serviceWorker e \<Longrightarrow> open_ok e QUEUED_SESSION_API_UPDATES_DB_NAME \<Longrightarrow>
   snd (replayQueuedRequests e w) =
     w\<lparr>opened := opened w @ [QUEUED_SESSION_API_UPDATES_DB_NAME],
       sent := sent w @ map replay_request (queue w),
       dbs := (dbs w)(QUEUED_SESSION_API_UPDATES_DB_NAME :=
                filter (\<lambda>kv. fst kv \<notin> set (replayed e (queue w))) (queue w)),
       toasts := toasts w @
         (if queue w = [] then []
          else if list_all (request_ok e) (queue w) then [msg_updated] else [msg_failed])\<rparr>"
  by (simp add: replayQueuedRequests_def simpleDB_open_def db_name Let_def showMessage_def
      case_prod_unfold replay_db_world replay_db_result queue_def split: promise.splits)

lemma queue_world_of: "queue (world_of q) = q"
  by (simp add: queue_def world_of_def)

lemma env_of_sel:
  "serviceWorker (env_of sw op ok) = sw"
  "open_ok (env_of sw op ok) n = op"
  "xhr_ok (env_of sw op ok) = ok"
  by (simp_all add: env_of_def)

section \<open>The claims\<close>

text \<open>
  Claim C6. Without service worker support (\<open>'serviceWorker' in navigator\<close> is false)
  \<open>replayQueuedRequests\<close> is a no-op that resolves at once: the promise is the one of
  \<open>Promise.resolve()\<close> and the world is untouched, so no store was opened, no request
  was issued and no notification was shown.
\<close>

theorem capability_gate:
  assumes "\<not> serviceWorker e"
  shows "replayQueuedRequests e w = (Resolved Undefined, w)"
  using assms by (simp add: replayQueuedRequests_def Promise_resolve_def)

theorem capability_gate_witness:
  "\<not> serviceWorker (env_of False True only_A) \<and>
   replayQueuedRequests (env_of False True only_A) (world_of ab_queue) =
     (Resolved Undefined, world_of ab_queue)"
proof -
  have off: "\<not> serviceWorker (env_of False True only_A)"
    by (simp add: env_of_sel)
  from off capability_gate [OF off, of "world_of ab_queue"] show ?thesis
    by (rule conjI)
qed

text \<open>
  Claim C1. With service worker support and a store that opens, a non-empty queue whose
  entries are all replayed with success is empty after the invocation, and the invocation
  shows exactly one notification, the success summary.
\<close>

theorem drain_on_success:
  assumes "serviceWorker e" and "open_ok e QUEUED_SESSION_API_UPDATES_DB_NAME"
    and "queue w \<noteq> []" and "\<forall>kv \<in> set (queue w). xhr_ok e (replay_request kv)"
  shows "queue (snd (replayQueuedRequests e w)) = [] \<and>
         toasts (snd (replayQueuedRequests e w)) =
           toasts w @ [''My Schedule was updated with offline changes.'']"
proof -
  from assms(4) have every: "list_all (request_ok e) (queue w)"
    by (simp add: list_all_iff request_ok_def)
  then have "filter (request_ok e) (queue w) = queue w"
    by (simp add: list_all_iff)
  then have keys: "set (replayed e (queue w)) = fst ` set (queue w)"
    by (simp add: replayed_def)
  have "filter (\<lambda>kv. fst kv \<notin> set (replayed e (queue w))) (queue w) = []"
    unfolding keys by (simp add: filter_empty_conv)
  with assms(1-3) every show ?thesis
    by (simp add: replay_world_open queue_def msg_updated_def)
qed

theorem drain_on_success_witness:
  "queue (world_of survey_queue) = [(''api/v1/user/survey/42'', ''PUT'')] \<and>
   queue (snd (replayQueuedRequests (env_of True True (\<lambda>r. True)) (world_of survey_queue))) = [] \<and>
   toasts (snd (replayQueuedRequests (env_of True True (\<lambda>r. True)) (world_of survey_queue))) =
     [''My Schedule was updated with offline changes.'']"
proof -
  have sw: "serviceWorker (env_of True True (\<lambda>r. True))"
    and op: "open_ok (env_of True True (\<lambda>r. True)) QUEUED_SESSION_API_UPDATES_DB_NAME"
    by (simp_all add: env_of_sel)
  have ne: "queue (world_of survey_queue) \<noteq> []"
    by (simp add: queue_world_of survey_queue_def)
  have ok: "\<forall>kv \<in> set (queue (world_of survey_queue)).
              xhr_ok (env_of True True (\<lambda>r. True)) (replay_request kv)"
    by (simp add: env_of_sel)
  have fresh: "toasts (world_of survey_queue) = []"
    by (simp add: world_of_def)
  have first: "queue (world_of survey_queue) = [(''api/v1/user/survey/42'', ''PUT'')]"
    by (simp add: queue_world_of survey_queue_def)
  from drain_on_success [OF sw op ne ok] first show ?thesis
    unfolding fresh append_Nil by simp
qed

text \<open>
  Claim C2. With service worker support and a store that opens, in a keyed store (no key
  twice) an entry of the queue is gone after the invocation exactly when the replay request
  of that entry succeeded; an entry whose request failed is still there. Each entry is
  decided by its own request alone: the queue after the invocation is the queue before
  it without the entries whose request succeeded, in the same order.
\<close>

theorem removed_iff_replay_succeeded:
  assumes "serviceWorker e" and "open_ok e QUEUED_SESSION_API_UPDATES_DB_NAME"
    and "distinct (map fst (queue w))" and "kv \<in> set (queue w)"
  shows "(kv \<notin> set (queue (snd (replayQueuedRequests e w))) \<longleftrightarrow>
            xhr_ok e (replay_request kv)) \<and>
         queue (snd (replayQueuedRequests e w)) =
           filter (\<lambda>x. \<not> xhr_ok e (replay_request x)) (queue w)"
proof -
  have after: "queue (snd (replayQueuedRequests e w)) =
                 filter (\<lambda>x. fst x \<notin> set (replayed e (queue w))) (queue w)"
    by (simp add: replay_world_open [OF assms(1,2)] queue_def)
  from assms(3) have one_key: "inj_on fst (set (queue w))"
    by (simp add: distinct_map)
  have own: "fst x \<in> set (replayed e (queue w)) \<longleftrightarrow> request_ok e x"
    if x: "x \<in> set (queue w)" for x
  proof
    assume "fst x \<in> set (replayed e (queue w))"
    then obtain y where in_q: "y \<in> set (queue w)" and good: "request_ok e y"
      and same: "fst y = fst x"
      by (auto simp: replayed_def)
    from one_key in_q x same have "y = x"
      by (auto dest: inj_onD)
    with good show "request_ok e x" by simp
  next
    assume "request_ok e x"
    with x show "fst x \<in> set (replayed e (queue w))"
      by (auto simp: replayed_def)
  qed
  have whole: "queue (snd (replayQueuedRequests e w)) =
                 filter (\<lambda>x. \<not> xhr_ok e (replay_request x)) (queue w)"
    unfolding after by (rule filter_cong) (simp_all add: own request_ok_def)
  from assms(4) have single: "kv \<notin> set (queue (snd (replayQueuedRequests e w))) \<longleftrightarrow>
                        xhr_ok e (replay_request kv)"
    unfolding whole by simp
  from single whole show ?thesis by (rule conjI)
qed

theorem removed_iff_replay_succeeded_witness:
  "(''A'', ''GET'') \<notin> set (queue (snd (replayQueuedRequests (env_of True True only_A) (world_of ab_queue)))) \<and>
   queue (snd (replayQueuedRequests (env_of True True only_A) (world_of ab_queue))) = [(''B'', ''PUT'')]"
proof -
  have sw: "serviceWorker (env_of True True only_A)"
    and op: "open_ok (env_of True True only_A) QUEUED_SESSION_API_UPDATES_DB_NAME"
    by (simp_all add: env_of_sel)
  have keyed: "distinct (map fst (queue (world_of ab_queue)))"
    by (simp add: queue_world_of ab_queue_def)
  have a: "(''A'', ''GET'') \<in> set (queue (world_of ab_queue))"
    by (simp add: queue_world_of ab_queue_def)
  have a_ok: "xhr_ok (env_of True True only_A) (replay_request (''A'', ''GET''))"
    by (simp add: env_of_sel only_A_def replay_request_def)
  have rest: "filter (\<lambda>x. \<not> xhr_ok (env_of True True only_A) (replay_request x))
                (queue (world_of ab_queue)) = [(''B'', ''PUT'')]"
    by (simp add: queue_world_of ab_queue_def env_of_sel only_A_def replay_request_def)
  note both = removed_iff_replay_succeeded [OF sw op keyed a]
  from both a_ok
  have gone: "(''A'', ''GET'') \<notin> set (queue (snd (replayQueuedRequests (env_of True True only_A) (world_of ab_queue))))"
    by blast
  from both rest
  have left: "queue (snd (replayQueuedRequests (env_of True True only_A) (world_of ab_queue))) = [(''B'', ''PUT'')]"
    by simp
  from gone left show ?thesis by (rule conjI)
qed

text \<open>
  Claim C3, as stated, at the queue \<open>{A \<rightarrow> GET, B \<rightarrow> PUT}\<close> with the request for
  \<open>A\<close> succeeding and the request for \<open>B\<close> failing: the queue is not empty, and the
  only notification of the invocation is the failure message, not the success summary.
  The rejected replay promise rejects \<open>Promise.all(replayPromises)\<close>, which skips the
  handler that shows the summary and reaches the \<open>catch\<close> handler.
\<close>

theorem summary_on_partial_failure_counterexample:
  "queue (world_of ab_queue) \<noteq> [] \<and>
   ''My Schedule was updated with offline changes.''
     \<notin> set (toasts (snd (replayQueuedRequests (env_of True True only_A) (world_of ab_queue)))) \<and>
   toasts (snd (replayQueuedRequests (env_of True True only_A) (world_of ab_queue))) =
     [''Offline changes could not be applied to My Schedule.'']"
proof -
  have sw: "serviceWorker (env_of True True only_A)"
    and op: "open_ok (env_of True True only_A) QUEUED_SESSION_API_UPDATES_DB_NAME"
    by (simp_all add: env_of_sel)
  have some: "queue (world_of ab_queue) \<noteq> []"
    by (simp add: queue_world_of ab_queue_def)
  have b_fails: "\<not> list_all (request_ok (env_of True True only_A)) (queue (world_of ab_queue))"
    by (simp add: queue_world_of ab_queue_def request_ok_def env_of_sel only_A_def
        replay_request_def)
  have fresh: "toasts (world_of ab_queue) = []"
    by (simp add: world_of_def)
  have "toasts (snd (replayQueuedRequests (env_of True True only_A) (world_of ab_queue))) =
          [''Offline changes could not be applied to My Schedule.'']"
    by (simp add: replay_world_open [OF sw op] some b_fails fresh msg_failed_def)
  with some show ?thesis by simp
qed

text \<open>
  Claim C3, amended. With service worker support and a store that opens, a non-empty queue
  makes the invocation show exactly one notification: the success summary when the replay
  request of every entry succeeded, the failure message when the request of any entry
  failed.
\<close>

theorem summary_iff_all_succeeded:
  assumes "serviceWorker e" and "open_ok e QUEUED_SESSION_API_UPDATES_DB_NAME"
    and "queue w \<noteq> []"
  shows "toasts (snd (replayQueuedRequests e w)) =
           toasts w @
           [if list_all (\<lambda>kv. xhr_ok e (replay_request kv)) (queue w)
            then ''My Schedule was updated with offline changes.''
            else ''Offline changes could not be applied to My Schedule.'']"
proof -
  have "request_ok e = (\<lambda>kv. xhr_ok e (replay_request kv))"
    by (rule ext) (simp add: request_ok_def)
  with assms show ?thesis
    by (simp add: replay_world_open msg_updated_def msg_failed_def)
qed

theorem summary_iff_all_succeeded_witness:
  "toasts (snd (replayQueuedRequests (env_of True True only_A) (world_of survey_queue))) =
     [''Offline changes could not be applied to My Schedule.''] \<and>
   toasts (snd (replayQueuedRequests (env_of True True (\<lambda>r. True)) (world_of ab_queue))) =
     [''My Schedule was updated with offline changes.'']"
proof -
  have sw: "serviceWorker (env_of True True ok)"
    and op: "open_ok (env_of True True ok) QUEUED_SESSION_API_UPDATES_DB_NAME" for ok
    by (simp_all add: env_of_sel)
  have some: "queue (world_of survey_queue) \<noteq> []" "queue (world_of ab_queue) \<noteq> []"
    by (simp_all add: queue_world_of survey_queue_def ab_queue_def)
  have fresh: "toasts (world_of q) = []" for q
    by (simp add: world_of_def)
  from summary_iff_all_succeeded [OF sw op some(1), of only_A]
  have one: "toasts (snd (replayQueuedRequests (env_of True True only_A) (world_of survey_queue))) =
               [''Offline changes could not be applied to My Schedule.'']"
    by (simp add: fresh queue_world_of survey_queue_def env_of_sel only_A_def replay_request_def)
  from summary_iff_all_succeeded [OF sw op some(2), of "\<lambda>r. True"]
  have two: "toasts (snd (replayQueuedRequests (env_of True True (\<lambda>r. True)) (world_of ab_queue))) =
               [''My Schedule was updated with offline changes.'']"
    by (simp add: fresh queue_world_of ab_queue_def env_of_sel)
  from one two show ?thesis by (rule conjI)
qed

text \<open>
  Claim C4, at a queue that holds one entry: \<open>clearQueuedRequests\<close> reads
  \<open>Schedule.QUEUED_SESSION_UPDATES_DB_NAME\<close>, a name the class does not declare (the
  getter is \<open>QUEUED_SESSION_API_UPDATES_DB_NAME\<close>), so it asks \<open>simpleDB\<close> to delete the
  database named by \<open>undefined\<close>. The call succeeds, and the store
  \<open>toolbox-offline-session-updates\<close>, opened afterwards, still holds the entry.
\<close>

theorem clearQueuedRequests_keeps_queue:
  "fst (clearQueuedRequests (env_of True True only_A) (world_of survey_queue)) = Resolved Undefined \<and>
   fst (simpleDB_open (env_of True True only_A) (Str ''toolbox-offline-session-updates'')
         (snd (clearQueuedRequests (env_of True True only_A) (world_of survey_queue)))) =
     Resolved ''toolbox-offline-session-updates'' \<and>
   dbs (snd (simpleDB_open (env_of True True only_A) (Str ''toolbox-offline-session-updates'')
         (snd (clearQueuedRequests (env_of True True only_A) (world_of survey_queue)))))
     ''toolbox-offline-session-updates'' = [(''api/v1/user/survey/42'', ''PUT'')]"
  by (simp add: clearQueuedRequests_def simpleDB_delete_def simpleDB_open_def Schedule_static_def
      env_of_def world_of_def survey_queue_def QUEUED_SESSION_API_UPDATES_DB_NAME_def Let_def)

text \<open>
  Claim C5. With service worker support, when opening the store fails the invocation
  issues no request, leaves every store as it is and shows exactly one notification, the
  failure message.
\<close>

theorem store_open_failure:
  assumes "serviceWorker e" and "\<not> open_ok e QUEUED_SESSION_API_UPDATES_DB_NAME"
  shows "sent (snd (replayQueuedRequests e w)) = sent w \<and>
         dbs (snd (replayQueuedRequests e w)) = dbs w \<and>
         toasts (snd (replayQueuedRequests e w)) =
           toasts w @ [''Offline changes could not be applied to My Schedule.'']"
  using assms by (simp add: replay_world_closed msg_failed_def)

theorem store_open_failure_witness:
  "sent (snd (replayQueuedRequests (env_of True False (\<lambda>r. True)) (world_of ab_queue))) = [] \<and>
   queue (snd (replayQueuedRequests (env_of True False (\<lambda>r. True)) (world_of ab_queue))) =
     [(''A'', ''GET''), (''B'', ''PUT'')] \<and>
   toasts (snd (replayQueuedRequests (env_of True False (\<lambda>r. True)) (world_of ab_queue))) =
     [''Offline changes could not be applied to My Schedule.'']"
proof -
  have sw: "serviceWorker (env_of True False (\<lambda>r. True))"
    and cl: "\<not> open_ok (env_of True False (\<lambda>r. True)) QUEUED_SESSION_API_UPDATES_DB_NAME"
    by (simp_all add: env_of_sel)
  have fresh: "sent (world_of ab_queue) = []" "toasts (world_of ab_queue) = []"
    "dbs (world_of ab_queue) QUEUED_SESSION_API_UPDATES_DB_NAME = [(''A'', ''GET''), (''B'', ''PUT'')]"
    by (simp_all add: world_of_def ab_queue_def)
  from store_open_failure [OF sw cl, of "world_of ab_queue"] show ?thesis
    by (simp add: fresh queue_def)
qed

text \<open>
  Claim C7. With service worker support and a store that opens, an empty queue makes the
  invocation issue no request and show no notification, and the stores are as before.
\<close>

theorem empty_queue_is_silent:
  assumes "serviceWorker e" and "open_ok e QUEUED_SESSION_API_UPDATES_DB_NAME"
    and "queue w = []"
  shows "sent (snd (replayQueuedRequests e w)) = sent w \<and>
         toasts (snd (replayQueuedRequests e w)) = toasts w \<and>
         queue (snd (replayQueuedRequests e w)) = queue w \<and>
         dbs (snd (replayQueuedRequests e w)) = dbs w"
proof -
  from assms(3) have "(dbs w)(QUEUED_SESSION_API_UPDATES_DB_NAME := []) = dbs w"
    by (auto simp: queue_def)
  with assms show ?thesis
    by (simp add: replay_world_open queue_def)
qed

theorem empty_queue_is_silent_witness:
  "queue (world_of []) = [] \<and>
   sent (snd (replayQueuedRequests (env_of True True (\<lambda>r. True)) (world_of []))) = [] \<and>
   toasts (snd (replayQueuedRequests (env_of True True (\<lambda>r. True)) (world_of []))) = [] \<and>
   queue (snd (replayQueuedRequests (env_of True True (\<lambda>r. True)) (world_of []))) = []"
proof -
  have sw: "serviceWorker (env_of True True (\<lambda>r. True))"
    and op: "open_ok (env_of True True (\<lambda>r. True)) QUEUED_SESSION_API_UPDATES_DB_NAME"
    by (simp_all add: env_of_sel)
  have none: "queue (world_of []) = []"
    by (simp add: queue_world_of)
  have fresh: "sent (world_of []) = []" "toasts (world_of []) = []"
    by (simp_all add: world_of_def)
  from empty_queue_is_silent [OF sw op none] show ?thesis
    by (simp add: fresh none)
qed

text \<open>
  Claim C8. Whatever the environment, the queue and the outcomes of the single requests,
  one invocation shows no notification, or the success summary once, or the failure
  message once; it never shows one notification per entry.
\<close>

theorem at_most_one_notification:
  "toasts (snd (replayQueuedRequests e w)) = toasts w \<or>
   toasts (snd (replayQueuedRequests e w)) =
     toasts w @ [''My Schedule was updated with offline changes.''] \<or>
   toasts (snd (replayQueuedRequests e w)) =
     toasts w @ [''Offline changes could not be applied to My Schedule.'']"
proof (cases "serviceWorker e")
  case False
  then show ?thesis by (simp add: replay_world_off)
next
  case True
  then show ?thesis
    by (cases "open_ok e QUEUED_SESSION_API_UPDATES_DB_NAME")
      (simp_all add: replay_world_open replay_world_closed msg_updated_def msg_failed_def)
qed

text \<open>
  Claim C9. With service worker support and a store that opens, the requests that the
  invocation issues are, entry by entry in the order of the visit, one request with the
  stored method, the stored url, the authenticated flag set and no payload.
\<close>

theorem one_request_per_entry:
  assumes "serviceWorker e" and "open_ok e QUEUED_SESSION_API_UPDATES_DB_NAME"
  shows "sent (snd (replayQueuedRequests e w)) =
           sent w @ map (\<lambda>(url, method).
             \<lparr>req_method = method, req_url = url, req_auth = True, req_payload = Undefined\<rparr>)
             (queue w)"
proof -
  have "replay_request = (\<lambda>(url, method).
          \<lparr>req_method = method, req_url = url, req_auth = True, req_payload = Undefined\<rparr>)"
    by (rule ext) (simp add: replay_request_def case_prod_unfold)
  with assms show ?thesis
    by (simp add: replay_world_open)
qed

theorem one_request_per_entry_witness:
  "sent (snd (replayQueuedRequests (env_of True True only_A) (world_of ab_queue))) =
     [\<lparr>req_method = ''GET'', req_url = ''A'', req_auth = True, req_payload = Undefined\<rparr>,
      \<lparr>req_method = ''PUT'', req_url = ''B'', req_auth = True, req_payload = Undefined\<rparr>]"
proof -
  have sw: "serviceWorker (env_of True True only_A)"
    and op: "open_ok (env_of True True only_A) QUEUED_SESSION_API_UPDATES_DB_NAME"
    by (simp_all add: env_of_sel)
  have fresh: "sent (world_of q) = []" for q
    by (simp add: world_of_def)
  from one_request_per_entry [OF sw op, of "world_of ab_queue"] show ?thesis
    by (simp add: fresh queue_world_of ab_queue_def)
qed

text \<open>
  Claim C10. The promise that \<open>replayQueuedRequests\<close> returns resolves in every
  environment and for every queue: with \<open>undefined\<close> when the capability is missing,
  with a one-element array otherwise, also when the store does not open or when replay
  requests fail.
\<close>

theorem replay_always_resolves:
  "fst (replayQueuedRequests e w) \<noteq> Rejected \<and>
   fst (replayQueuedRequests e w) =
     Resolved (if serviceWorker e then Arr [Undefined] else Undefined)"
proof (cases "serviceWorker e")
  case False
  then have "fst (replayQueuedRequests e w) = Resolved Undefined"
    by (simp add: replayQueuedRequests_def Promise_resolve_def)
  with False show ?thesis by simp
next
  case True
  have caught: "fst (replayQueuedRequests e w) = Resolved (Arr [Undefined])"
  proof (cases "open_ok e QUEUED_SESSION_API_UPDATES_DB_NAME")
    case False
    with True show ?thesis
      by (simp add: replayQueuedRequests_def simpleDB_open_def db_name Let_def Promise_all_def)
  next
    case opens: True
    show ?thesis
    proof (cases "list_all (request_ok e) (queue w)")
      case True
      with \<open>serviceWorker e\<close> opens show ?thesis
        by (simp add: replayQueuedRequests_def simpleDB_open_def db_name Let_def Promise_all_def
            case_prod_unfold replay_db_result queue_def)
    next
      case False
      with \<open>serviceWorker e\<close> opens show ?thesis
        by (simp add: replayQueuedRequests_def simpleDB_open_def db_name Let_def Promise_all_def
            case_prod_unfold replay_db_result queue_def)
    qed
  qed
  with True show ?thesis by simp
qed

end
